theory Spec2Isabelle
  imports Main "HOL-Library.Word"
begin

unbundle bit_operations_syntax

section \<open>JavaScript values\<close>

text \<open>
  The two source files, \<^verbatim>\<open>State.ts\<close> and \<^verbatim>\<open>createStateWith.ts\<close>, use four
  operations of the language on arbitrary values: \<^verbatim>\<open>typeof\<close>, \<^verbatim>\<open>!==\<close>,
  \<^verbatim>\<open>instanceof\<close> and the string conversion of a template literal. The values are
  those of the language, in the kinds \<^verbatim>\<open>typeof\<close> tells apart (\<^verbatim>\<open>null\<close> shares
  the answer \<^verbatim>\<open>object\<close> with the objects). A number is its IEEE 754 binary64 bit
  pattern, an object or a function is its identity.
\<close>

type_synonym addr = nat
type_synonym fid = nat

datatype jsval =
    JUndefined
  | JNull
  | JBool bool
  | JNum "64 word"
  | JBigInt int
  | JStr string
  | JSym nat
  | JFun fid
  | JRef addr

fun typeof :: "jsval \<Rightarrow> string" where
  "typeof JUndefined = ''undefined''"
| "typeof JNull = ''object''"
| "typeof (JBool b) = ''boolean''"
| "typeof (JNum w) = ''number''"
| "typeof (JBigInt i) = ''bigint''"
| "typeof (JStr s) = ''string''"
| "typeof (JSym n) = ''symbol''"
| "typeof (JFun f) = ''function''"
| "typeof (JRef a) = ''object''"

text \<open>
  Equality of two binary64 numbers: a NaN (exponent bits all set, fraction not zero)
  equals nothing, the two zeros equal each other, every other number equals itself only.
\<close>

definition isNaN :: "64 word \<Rightarrow> bool" where
  "isNaN w \<longleftrightarrow>
     w AND 0x7FF0000000000000 = 0x7FF0000000000000 \<and> w AND 0x000FFFFFFFFFFFFF \<noteq> 0"

definition isZero :: "64 word \<Rightarrow> bool" where
  "isZero w \<longleftrightarrow> w AND 0x7FFFFFFFFFFFFFFF = 0"

definition number_equal :: "64 word \<Rightarrow> 64 word \<Rightarrow> bool" where
  "number_equal x y \<longleftrightarrow> \<not> isNaN x \<and> \<not> isNaN y \<and> (x = y \<or> (isZero x \<and> isZero y))"

text \<open>\<^verbatim>\<open>x === y\<close>; the source's \<^verbatim>\<open>x !== y\<close> is its negation.\<close>

fun strict_equal :: "jsval \<Rightarrow> jsval \<Rightarrow> bool" where
  "strict_equal JUndefined JUndefined = True"
| "strict_equal JNull JNull = True"
| "strict_equal (JBool a) (JBool b) = (a = b)"
| "strict_equal (JNum x) (JNum y) = number_equal x y"
| "strict_equal (JBigInt i) (JBigInt j) = (i = j)"
| "strict_equal (JStr s) (JStr t) = (s = t)"
| "strict_equal (JSym m) (JSym n) = (m = n)"
| "strict_equal (JFun f) (JFun g) = (f = g)"
| "strict_equal (JRef a) (JRef b) = (a = b)"
| "strict_equal _ _ = False"

definition isNaN_value :: "jsval \<Rightarrow> bool" where
  "isNaN_value v = (case v of JNum w \<Rightarrow> isNaN w | _ \<Rightarrow> False)"

section \<open>Errors, objects and the store\<close>

text \<open>
  What a call can throw: the two error classes of the library, the language's own
  \<^verbatim>\<open>TypeError\<close>, and any value thrown by code the caller supplied.
\<close>

datatype thrown =
    ValidationError string
  | InstanceError string
  | TypeError string
  | UserThrown jsval

text \<open>
  A call returns a value, throws, or never comes back; the first two leave a state.
\<close>

datatype ('a, 's) outcome = Return 'a 's | Throw thrown 's | Diverge

text \<open>
  \<^verbatim>\<open>class State<T> { value: T; onChange?: StateCallback<T>; ... }\<close>.
  The optional callback is absent (\<^verbatim>\<open>undefined\<close>) or a function.
\<close>

record State =
  "value" :: jsval
  onChange :: "fid option"

text \<open>
  An instance is tagged with its class: \<^verbatim>\<open>State\<close> itself or a class that extends it
  (and inherits \<^verbatim>\<open>get\<close>, \<^verbatim>\<open>set\<close> and \<^verbatim>\<open>verifyValue\<close>). Every other object is
  ordinary: it has the names of its properties and says how it is converted to a string:
  by the inherited \<^verbatim>\<open>Object.prototype.toString\<close>, not at all (an object without a
  prototype), or by a method of its own, which is code of the caller like any callback.
\<close>

datatype klass = StateClass | ExtendedClass nat

datatype conversion = DefaultToString | NoToString | OwnToString fid

record ordinary =
  props :: "string list"
  conversion :: conversion

datatype jsobj = Instance klass State | Ordinary ordinary

type_synonym heap = "addr \<rightharpoonup> jsobj"

text \<open>
  The state of a run: the store, and the log of the calls that the operation being run
  made to change callbacks and initial effects (function and argument), in order.
  Caller-supplied code sees the store only; what it does there, a nested \<^verbatim>\<open>set\<close>
  included, is part of its own meaning and adds nothing to the log.
\<close>

record config =
  heap :: heap
  calls :: "(fid \<times> jsval) list"

text \<open>
  What the library takes from its host: the meaning of each caller-supplied function (a
  change callback or an initial effect), which may read and write the whole store, throw,
  or not return; the runtime's printing of numbers; and the string conversion of a
  function and of an object with a conversion method of its own (the method and the
  object it is called on), which run caller-supplied code too and so may write the
  store, throw, or not return.
\<close>

record host =
  call :: "fid \<Rightarrow> jsval \<Rightarrow> heap \<Rightarrow> (jsval, heap) outcome"
  numberToString :: "64 word \<Rightarrow> string"
  functionToString :: "fid \<Rightarrow> heap \<Rightarrow> (string, heap) outcome"
  objectToString :: "fid \<Rightarrow> addr \<Rightarrow> heap \<Rightarrow> (string, heap) outcome"

definition invoke :: "host \<Rightarrow> fid \<Rightarrow> jsval \<Rightarrow> config \<Rightarrow> (jsval, config) outcome" where
  "invoke H f v s =
     (case call H f v (heap s) of
        Return r h' \<Rightarrow> Return r \<lparr>heap = h', calls = calls s @ [(f, v)]\<rparr>
      | Throw e h' \<Rightarrow> Throw e \<lparr>heap = h', calls = calls s @ [(f, v)]\<rparr>
      | Diverge \<Rightarrow> Diverge)"

section \<open>String conversion in a template literal\<close>

fun digits :: "nat \<Rightarrow> string" where
  "digits n =
     (if n < 10 then [char_of (48 + n)] else digits (n div 10) @ [char_of (48 + n mod 10)])"

definition bigintToString :: "int \<Rightarrow> string" where
  "bigintToString i = (if i < 0 then ''-'' @ digits (nat (- i)) else digits (nat i))"

text \<open>
  A template literal with the placeholder \<^verbatim>\<open>${x}\<close> converts \<^verbatim>\<open>x\<close> to a
  string. A primitive value is printed by the runtime, except a symbol, whose conversion
  throws a \<^verbatim>\<open>TypeError\<close>. The conversion of an object calls the object's
  conversion method: the inherited one prints \<^verbatim>\<open>[object Object]\<close>, a missing one
  is a \<^verbatim>\<open>TypeError\<close>, and one of the object's own is run on the store.
\<close>

fun template_string :: "host \<Rightarrow> heap \<Rightarrow> jsval \<Rightarrow> (string, heap) outcome" where
  "template_string H h JUndefined = Return ''undefined'' h"
| "template_string H h JNull = Return ''null'' h"
| "template_string H h (JBool b) = Return (if b then ''true'' else ''false'') h"
| "template_string H h (JNum w) = Return (numberToString H w) h"
| "template_string H h (JBigInt i) = Return (bigintToString i) h"
| "template_string H h (JStr s) = Return s h"
| "template_string H h (JSym n) =
     Throw (TypeError ''Cannot convert a Symbol value to a string'') h"
| "template_string H h (JFun f) = functionToString H f h"
| "template_string H h (JRef a) =
     (case h a of
        Some (Ordinary p) \<Rightarrow>
          (case conversion p of
             DefaultToString \<Rightarrow> Return ''[object Object]'' h
           | NoToString \<Rightarrow> Throw (TypeError ''Cannot convert object to primitive value'') h
           | OwnToString f \<Rightarrow> objectToString H f a h)
      | _ \<Rightarrow> Return ''[object Object]'' h)"

section \<open>The class State\<close>

text \<open>\<^verbatim>\<open>constructor(value, onChange) { this.value = value; this.onChange = onChange; }\<close>\<close>

definition State_new :: "jsval \<Rightarrow> fid option \<Rightarrow> State" where
  "State_new v cb = \<lparr>value = v, onChange = cb\<rparr>"

text \<open>
  \<^verbatim>\<open>verifyValue(newValue)\<close>: throws on a different \<^verbatim>\<open>typeof\<close>, and otherwise
  returns \<^verbatim>\<open>this.value !== newValue\<close>.
\<close>

definition State_verifyValue :: "State \<Rightarrow> jsval \<Rightarrow> thrown + bool" where
  "State_verifyValue this newValue =
     (let recievedType = typeof newValue;
          valueType = typeof (value this)
      in if typeof newValue \<noteq> valueType
         then Inl (ValidationError
                (''Expected type of '' @ valueType @ '' but recieved '' @ recievedType))
         else Inr (\<not> strict_equal (value this) newValue))"

text \<open>
  \<^verbatim>\<open>get() { return this.value; }\<close>, on the object at an address. An object with no
  \<^verbatim>\<open>value\<close> property reads as \<^verbatim>\<open>undefined\<close>.
\<close>

definition State_get :: "heap \<Rightarrow> addr \<Rightarrow> jsval" where
  "State_get h this = (case h this of Some (Instance k c) \<Rightarrow> value c | _ \<Rightarrow> JUndefined)"

text \<open>
  \<^verbatim>\<open>set(newValue) { if (this.verifyValue(newValue)) { this.value = newValue;
  if (this.onChange) { this.onChange(this.value); } } }\<close>.
  The result of the callback is dropped. On a receiver that is no instance the method
  call \<^verbatim>\<open>this.verifyValue(...)\<close> is a \<^verbatim>\<open>TypeError\<close>.
\<close>

definition State_set :: "host \<Rightarrow> addr \<Rightarrow> jsval \<Rightarrow> config \<Rightarrow> (unit, config) outcome" where
  "State_set H this newValue s =
     (case heap s this of
        Some (Instance k c) \<Rightarrow>
          (case State_verifyValue c newValue of
             Inl e \<Rightarrow> Throw e s
           | Inr changed \<Rightarrow>
               if changed then
                 (let s1 = s\<lparr>heap := (heap s)(this \<mapsto> Instance k (c\<lparr>value := newValue\<rparr>))\<rparr>
                  in case onChange c of
                       Some f \<Rightarrow>
                         (case invoke H f (State_get (heap s1) this) s1 of
                            Return r s2 \<Rightarrow> Return () s2
                          | Throw e s2 \<Rightarrow> Throw e s2
                          | Diverge \<Rightarrow> Diverge)
                     | None \<Rightarrow> Return () s1)
               else Return () s)
      | _ \<Rightarrow> Throw (TypeError ''this.verifyValue is not a function'') s)"

section \<open>createStateWith\<close>

text \<open>\<^verbatim>\<open>x instanceof State\<close>: an object whose class is \<^verbatim>\<open>State\<close> or extends it.\<close>

fun instanceof_State :: "heap \<Rightarrow> jsval \<Rightarrow> bool" where
  "instanceof_State h (JRef a) = (case h a of Some (Instance k c) \<Rightarrow> True | _ \<Rightarrow> False)"
| "instanceof_State h _ = False"

text \<open>
  \<^verbatim>\<open>extendedState.get()\<close> on a value that passed the \<^verbatim>\<open>instanceof\<close> test.
\<close>

fun get_of :: "heap \<Rightarrow> jsval \<Rightarrow> jsval" where
  "get_of h (JRef a) = State_get h a"
| "get_of h _ = JUndefined"

definition createStateWith ::
  "host \<Rightarrow> jsval \<Rightarrow> fid option \<Rightarrow> config \<Rightarrow> (jsval, config) outcome" where
  "createStateWith H extendedState initalEffect s =
     (if instanceof_State (heap s) extendedState then
        (case initalEffect of
           Some f \<Rightarrow>
             (case invoke H f (get_of (heap s) extendedState) s of
                Return r s' \<Rightarrow> Return extendedState s'
              | Throw e s' \<Rightarrow> Throw e s'
              | Diverge \<Rightarrow> Diverge)
         | None \<Rightarrow> Return extendedState s)
      else
        (case template_string H (heap s) extendedState of
           Return str h' \<Rightarrow>
             Throw (InstanceError (str @ '' is not an instance of the State class.''))
               (s\<lparr>heap := h'\<rparr>)
         | Throw e h' \<Rightarrow> Throw e (s\<lparr>heap := h'\<rparr>)
         | Diverge \<Rightarrow> Diverge))"

section \<open>Example runs\<close>

text \<open>The numbers 0, 5, 6 and a quiet NaN as binary64 bit patterns.\<close>

definition float_zero :: "64 word" where
  "float_zero = 0"

definition float_five :: "64 word" where
  "float_five = 0x4014000000000000"

definition float_six :: "64 word" where
  "float_six = 0x4018000000000000"

definition float_NaN :: "64 word" where
  "float_NaN = 0x7FF8000000000000"

text \<open>
  The runtime of the examples prints the numbers that occur in them (and no other number
  is ever printed there).
\<close>

definition example_numberToString :: "64 word \<Rightarrow> string" where
  "example_numberToString w =
     (if isNaN w then ''NaN'' else if isZero w then ''0''
      else if w = float_five then ''5'' else if w = float_six then ''6'' else [])"

definition example_runtime :: "(fid \<Rightarrow> jsval \<Rightarrow> heap \<Rightarrow> (jsval, heap) outcome) \<Rightarrow> host" where
  "example_runtime c =
     \<lparr>call = c, numberToString = example_numberToString,
      functionToString = (\<lambda>f h. Return ''(v) => { }'' h),
      objectToString = (\<lambda>f a h. Return ''custom'' h)\<rparr>"

definition fresh :: "heap \<Rightarrow> config" where
  "fresh h = \<lparr>heap = h, calls = []\<rparr>"

definition heap_outcome :: "('a, config) outcome \<Rightarrow> (jsval, heap) outcome" where
  "heap_outcome r =
     (case r of
        Return u s \<Rightarrow> Return JUndefined (heap s)
      | Throw e s \<Rightarrow> Throw e (heap s)
      | Diverge \<Rightarrow> Diverge)"

text \<open>
  Four caller-supplied functions, written against the cell \<^verbatim>\<open>cell\<close> at address 0
  and the cell \<^verbatim>\<open>box\<close> at address 1:
  \<^item> 0 is \<^verbatim>\<open>v => { box.value = v }\<close>;
  \<^item> 1 is \<^verbatim>\<open>v => { if (v !== 0) cell.set(0) }\<close>;
  \<^item> 2 is \<^verbatim>\<open>v => { throw 'boom' }\<close>;
  \<^item> 3 is \<^verbatim>\<open>v => { if (v !== 5) cell.set(5); throw 'boom' }\<close>.
  Functions 1 and 3 call \<^verbatim>\<open>set\<close> again from inside the callback; the first
  argument bounds how deep such calls may nest.
\<close>

primrec example_call :: "nat \<Rightarrow> fid \<Rightarrow> jsval \<Rightarrow> heap \<Rightarrow> (jsval, heap) outcome" where
  "example_call 0 = (\<lambda>f v h. Diverge)"
| "example_call (Suc n) = (\<lambda>f v h.
     if f = 0 then
       Return JUndefined
         (case h 1 of Some (Instance k c) \<Rightarrow> h(1 \<mapsto> Instance k (c\<lparr>value := v\<rparr>)) | _ \<Rightarrow> h)
     else if f = 1 then
       (if strict_equal v (JNum float_zero) then Return JUndefined h
        else heap_outcome
               (State_set (example_runtime (example_call n)) 0 (JNum float_zero) (fresh h)))
     else if f = 2 then Throw (UserThrown (JStr ''boom'')) h
     else
       (case (if strict_equal v (JNum float_five) then Return JUndefined h
              else heap_outcome
                     (State_set (example_runtime (example_call n)) 0 (JNum float_five) (fresh h))) of
          Return u h' \<Rightarrow> Throw (UserThrown (JStr ''boom'')) h'
        | Throw e h' \<Rightarrow> Throw e h'
        | Diverge \<Rightarrow> Diverge))"

definition example_host :: host where
  "example_host = example_runtime (example_call (Suc (Suc (Suc 0))))"

text \<open>
  The store of the examples: the cell under test at 0 (built by the constructor from a
  value and an optional callback), the box at 1, a plain object with methods
  \<^verbatim>\<open>get\<close> and \<^verbatim>\<open>set\<close> at 2, such an object without a prototype (its string
  conversion throws) at 3, and at 4 an instance of a class extending \<^verbatim>\<open>State\<close> that
  holds the object at 2 and notifies function 0.
\<close>

definition example_heap :: "jsval \<Rightarrow> fid option \<Rightarrow> heap" where
  "example_heap v cb =
     [0 \<mapsto> Instance StateClass (State_new v cb),
      1 \<mapsto> Instance StateClass (State_new JUndefined None),
      2 \<mapsto> Ordinary \<lparr>props = [''get'', ''set''], conversion = DefaultToString\<rparr>,
      3 \<mapsto> Ordinary \<lparr>props = [''get'', ''set''], conversion = NoToString\<rparr>,
      4 \<mapsto> Instance (ExtendedClass 0) (State_new (JRef 2) (Some 0))]"

definition example_config :: "jsval \<Rightarrow> fid option \<Rightarrow> config" where
  "example_config v cb = fresh (example_heap v cb)"

section \<open>Basic facts\<close>

declare digits.simps [simp del]

lemmas example_defs =
  example_config_def example_heap_def example_host_def example_runtime_def fresh_def
  heap_outcome_def State_new_def float_zero_def float_five_def float_six_def float_NaN_def
  example_numberToString_def

lemmas model_defs =
  State_set_def State_verifyValue_def State_get_def invoke_def createStateWith_def
  number_equal_def isNaN_def isZero_def

lemma bigintToString_example: "bigintToString (- 1203) = ''-1203''"
  by code_simp

lemma number_equal_zeros: "number_equal 0 0x8000000000000000"
  by (simp add: number_equal_def isNaN_def isZero_def)

lemma strict_equal_typeof: "strict_equal x y \<Longrightarrow> typeof x = typeof y"
  by (cases x; cases y) simp_all

lemma strict_equal_refl: "strict_equal v v \<longleftrightarrow> \<not> isNaN_value v"
  by (cases v) (simp_all add: isNaN_value_def number_equal_def)

lemma verifyValue_changed:
  "typeof v = typeof (value c) \<Longrightarrow> State_verifyValue c v = Inr (\<not> strict_equal (value c) v)"
  by (simp add: State_verifyValue_def Let_def)

lemma verifyValue_mismatch:
  "typeof v \<noteq> typeof (value c) \<Longrightarrow>
   State_verifyValue c v =
     Inl (ValidationError
       (''Expected type of '' @ typeof (value c) @ '' but recieved '' @ typeof v))"
  by (simp add: State_verifyValue_def Let_def)

text \<open>The two branches of \<^verbatim>\<open>set\<close> once \<^verbatim>\<open>verifyValue\<close> has returned.\<close>

lemma State_set_changed:
  assumes "heap s this = Some (Instance k c)" and "State_verifyValue c v = Inr True"
  shows "State_set H this v s =
     (case onChange c of
        None \<Rightarrow> Return () (s\<lparr>heap := (heap s)(this \<mapsto> Instance k (c\<lparr>value := v\<rparr>))\<rparr>)
      | Some f \<Rightarrow>
          (case call H f v ((heap s)(this \<mapsto> Instance k (c\<lparr>value := v\<rparr>))) of
             Return r h' \<Rightarrow> Return () \<lparr>heap = h', calls = calls s @ [(f, v)]\<rparr>
           | Throw e h' \<Rightarrow> Throw e \<lparr>heap = h', calls = calls s @ [(f, v)]\<rparr>
           | Diverge \<Rightarrow> Diverge))"
  using assms
  by (simp add: State_set_def State_get_def invoke_def Let_def
      split: option.splits outcome.splits)

lemma State_set_unchanged:
  assumes "heap s this = Some (Instance k c)" and "State_verifyValue c v = Inr False"
  shows "State_set H this v s = Return () s"
  using assms by (simp add: State_set_def)

lemma createStateWith_instance:
  assumes "heap s a = Some (Instance k c)"
  shows "createStateWith H (JRef a) (Some f) s =
     (case call H f (value c) (heap s) of
        Return r h' \<Rightarrow> Return (JRef a) \<lparr>heap = h', calls = calls s @ [(f, value c)]\<rparr>
      | Throw e h' \<Rightarrow> Throw e \<lparr>heap = h', calls = calls s @ [(f, value c)]\<rparr>
      | Diverge \<Rightarrow> Diverge)"
  using assms
  by (simp add: createStateWith_def State_get_def invoke_def split: outcome.splits)

text \<open>
  The branch of \<^verbatim>\<open>createStateWith\<close> for a plain object that prints as
  \<^verbatim>\<open>[object Object]\<close>.
\<close>

lemma createStateWith_plain_object:
  assumes "heap s a = Some (Ordinary p)" and "conversion p = DefaultToString"
  shows "createStateWith H (JRef a) eff s
     = Throw (InstanceError ''[object Object] is not an instance of the State class.'') s"
  using assms by (simp add: createStateWith_def)

section \<open>Claims about set\<close>

text \<open>
  C1, as amended. Take a cell with a registered callback \<open>f\<close> and a value \<open>v\<close> whose
  \<^verbatim>\<open>typeof\<close> is that of the stored value and that is \<^verbatim>\<open>!==\<close> to it. Then
  \<^verbatim>\<open>set(v)\<close> first stores \<open>v\<close> (a \<^verbatim>\<open>get()\<close> on the store handed to the callback
  gives \<open>v\<close>), and then itself calls \<open>f\<close> exactly once, with argument \<open>v\<close>, on that
  store: the outcome of \<^verbatim>\<open>set\<close> is the outcome of this one call, and the log grows by
  the single entry \<open>(f, v)\<close>. When \<^verbatim>\<open>set\<close> has returned and the callback has left the
  cell as the assignment made it, \<^verbatim>\<open>get()\<close> gives \<open>v\<close>. (A callback that assigns
  the cell again, as by a nested \<^verbatim>\<open>set\<close>, decides what a later \<^verbatim>\<open>get()\<close> gives.)
\<close>

theorem State_set_notifies:
  "\<lbrakk>heap s this = Some (Instance k c); onChange c = Some f;
    typeof v = typeof (value c); \<not> strict_equal (value c) v\<rbrakk> \<Longrightarrow>
   (let h1 = (heap s)(this \<mapsto> Instance k (c\<lparr>value := v\<rparr>)) in
      State_get h1 this = v \<and>
      State_set H this v s =
        (case call H f v h1 of
           Return r h' \<Rightarrow> Return () \<lparr>heap = h', calls = calls s @ [(f, v)]\<rparr>
         | Throw e h' \<Rightarrow> Throw e \<lparr>heap = h', calls = calls s @ [(f, v)]\<rparr>
         | Diverge \<Rightarrow> Diverge) \<and>
      (\<forall>u s'. State_set H this v s = Return u s' \<and> heap s' this = h1 this
          \<longrightarrow> State_get (heap s') this = v))"
proof -
  assume inst: "heap s this = Some (Instance k c)" and cb: "onChange c = Some f"
    and ty: "typeof v = typeof (value c)" and ne: "\<not> strict_equal (value c) v"
  have "State_verifyValue c v = Inr True"
    using ty ne by (simp add: verifyValue_changed)
  from State_set_changed [OF inst this, of H] cb
  show ?thesis
    by (simp add: Let_def State_get_def)
qed

text \<open>
  The second scenario of the specification, with the callback that copies its argument
  into the box: \<^verbatim>\<open>cell = State(5, f); cell.set(6)\<close>.
\<close>

theorem State_set_notifies_witness:
  "heap (example_config (JNum float_five) (Some 0)) 0
     = Some (Instance StateClass (State_new (JNum float_five) (Some 0))) \<and>
   typeof (JNum float_six) = typeof (JNum float_five) \<and>
   \<not> strict_equal (JNum float_five) (JNum float_six) \<and>
   (case State_set example_host 0 (JNum float_six) (example_config (JNum float_five) (Some 0)) of
      Return u s' \<Rightarrow>
        calls s' = [(0, JNum float_six)] \<and> State_get (heap s') 0 = JNum float_six \<and>
        State_get (heap s') 1 = JNum float_six
    | _ \<Rightarrow> False)"
  using State_set_notifies [of "example_config (JNum float_five) (Some 0)" 0 StateClass
      "State_new (JNum float_five) (Some 0)" 0 "JNum float_six" example_host]
  by (simp add: example_defs model_defs Let_def)

text \<open>
  C1 as written fails where the callback sets the cell again:
  \<^verbatim>\<open>cell = State(5, v => { if (v !== 0) cell.set(0) }); cell.set(6)\<close> returns, having
  called the callback once itself, and \<^verbatim>\<open>cell.get()\<close> is then 0, not 6.
\<close>

theorem State_set_reentrant_counterexample:
  "heap (example_config (JNum float_five) (Some 1)) 0
     = Some (Instance StateClass (State_new (JNum float_five) (Some 1))) \<and>
   typeof (JNum float_six) = typeof (JNum float_five) \<and>
   \<not> strict_equal (JNum float_five) (JNum float_six) \<and>
   (case State_set example_host 0 (JNum float_six) (example_config (JNum float_five) (Some 1)) of
      Return u s' \<Rightarrow>
        calls s' = [(1, JNum float_six)] \<and> State_get (heap s') 0 = JNum float_zero \<and>
        State_get (heap s') 0 \<noteq> JNum float_six
    | _ \<Rightarrow> False)"
  by (simp add: example_defs model_defs Let_def)

text \<open>
  C2. When the \<^verbatim>\<open>typeof\<close> of the supplied value differs from that of the stored one,
  \<^verbatim>\<open>set\<close> throws a \<^verbatim>\<open>ValidationError\<close> and leaves the state as it was: the store
  is the same (so \<^verbatim>\<open>get()\<close> gives the value from before the call) and the log of
  calls is the same (the callback was not called).
\<close>

theorem State_set_type_mismatch:
  "\<lbrakk>heap s this = Some (Instance k c); typeof v \<noteq> typeof (value c)\<rbrakk> \<Longrightarrow>
   \<exists>msg. State_set H this v s = Throw (ValidationError msg) s"
  by (simp add: State_set_def verifyValue_mismatch)

text \<open>The third scenario: \<^verbatim>\<open>cell = State(5, f); cell.set("x")\<close>.\<close>

theorem State_set_type_mismatch_witness:
  "heap (example_config (JNum float_five) (Some 0)) 0
     = Some (Instance StateClass (State_new (JNum float_five) (Some 0))) \<and>
   typeof (JStr ''x'') \<noteq> typeof (JNum float_five) \<and>
   (\<exists>msg. State_set example_host 0 (JStr ''x'') (example_config (JNum float_five) (Some 0))
      = Throw (ValidationError msg) (example_config (JNum float_five) (Some 0))) \<and>
   State_get (heap (example_config (JNum float_five) (Some 0))) 0 = JNum float_five \<and>
   calls (example_config (JNum float_five) (Some 0)) = []"
  using State_set_type_mismatch [of "example_config (JNum float_five) (Some 0)" 0 StateClass
      "State_new (JNum float_five) (Some 0)" "JStr ''x''" example_host]
  by (simp add: example_defs State_get_def)

text \<open>
  C3. The message of the error is built by \<^verbatim>\<open>verifyValue\<close> from the two
  \<^verbatim>\<open>typeof\<close> strings; the word between them is spelt \<^verbatim>\<open>recieved\<close> in the source.
  For \<^verbatim>\<open>cell = State(5); cell.set("x")\<close> the message is not the one the
  specification gives.
\<close>

theorem State_set_message_misspelt:
  "State_set example_host 0 (JStr ''x'') (example_config (JNum float_five) None)
     = Throw (ValidationError ''Expected type of number but recieved string'')
         (example_config (JNum float_five) None) \<and>
   ''Expected type of number but recieved string''
     \<noteq> ''Expected type of number but received string''"
  by (simp add: example_defs model_defs Let_def)

text \<open>
  C4, as amended. A \<^verbatim>\<open>set\<close> with a value that is \<^verbatim>\<open>===\<close> to the stored one returns
  with the state as it was: nothing is stored and the callback is not called. In particular
  \<^verbatim>\<open>set(get())\<close> does nothing whenever the stored value is not NaN.
\<close>

theorem State_set_equal_noop:
  "heap s this = Some (Instance k c) \<Longrightarrow>
   (strict_equal (value c) v \<longrightarrow> State_set H this v s = Return () s) \<and>
   (\<not> isNaN_value (value c) \<longrightarrow> State_set H this (State_get (heap s) this) s = Return () s)"
proof -
  assume inst: "heap s this = Some (Instance k c)"
  have eq: "State_set H this w s = Return () s" if "strict_equal (value c) w" for w
  proof -
    from that have "typeof w = typeof (value c)"
      by (simp add: strict_equal_typeof)
    with that have "State_verifyValue c w = Inr False"
      by (simp add: verifyValue_changed)
    with inst show ?thesis
      by (rule State_set_unchanged)
  qed
  have "State_get (heap s) this = value c"
    using inst by (simp add: State_get_def)
  with eq [of v] eq [of "value c"] show ?thesis
    by (simp add: strict_equal_refl)
qed

text \<open>The first scenario: \<^verbatim>\<open>cell = State(5, f); cell.set(5)\<close>.\<close>

theorem State_set_equal_noop_witness:
  "heap (example_config (JNum float_five) (Some 0)) 0
     = Some (Instance StateClass (State_new (JNum float_five) (Some 0))) \<and>
   strict_equal (JNum float_five) (JNum float_five) \<and>
   \<not> isNaN_value (JNum float_five) \<and>
   State_set example_host 0 (JNum float_five) (example_config (JNum float_five) (Some 0))
     = Return () (example_config (JNum float_five) (Some 0)) \<and>
   State_set example_host 0 (State_get (heap (example_config (JNum float_five) (Some 0))) 0)
       (example_config (JNum float_five) (Some 0))
     = Return () (example_config (JNum float_five) (Some 0))"
  using State_set_equal_noop [of "example_config (JNum float_five) (Some 0)" 0 StateClass
      "State_new (JNum float_five) (Some 0)" "JNum float_five" example_host]
  by (simp add: example_defs isNaN_value_def number_equal_def isNaN_def)

text \<open>
  C4 as written fails at NaN: with \<^verbatim>\<open>cell = State(NaN, f)\<close> the call
  \<^verbatim>\<open>cell.set(cell.get())\<close> calls \<open>f\<close>, which here copies NaN into the box.
\<close>

theorem State_set_get_NaN_counterexample:
  "heap (example_config (JNum float_NaN) (Some 0)) 0
     = Some (Instance StateClass (State_new (JNum float_NaN) (Some 0))) \<and>
   State_get (heap (example_config (JNum float_NaN) (Some 0))) 0 = JNum float_NaN \<and>
   (case State_set example_host 0 (State_get (heap (example_config (JNum float_NaN) (Some 0))) 0)
           (example_config (JNum float_NaN) (Some 0)) of
      Return u s' \<Rightarrow> calls s' = [(0, JNum float_NaN)] \<and> State_get (heap s') 1 = JNum float_NaN
    | _ \<Rightarrow> False)"
  by (simp add: example_defs model_defs Let_def)

section \<open>Claims about createStateWith\<close>

text \<open>
  C5. For an argument that is no instance of \<^verbatim>\<open>State\<close> the source builds the
  message with a template literal and then throws the \<^verbatim>\<open>InstanceError\<close>. For the
  plain object of the fifth scenario, \<^verbatim>\<open>{get(){}, set(){}}\<close>, this is what happens:
  the error is an \<^verbatim>\<open>InstanceError\<close> with the message
  \<^verbatim>\<open>[object Object] is not an instance of the State class.\<close>. For an object with
  \<^verbatim>\<open>get\<close> and \<^verbatim>\<open>set\<close> but without a prototype, and for a symbol, the conversion
  inside the template literal throws first: a \<^verbatim>\<open>TypeError\<close> reaches the caller and
  no \<^verbatim>\<open>InstanceError\<close> is made. In the three runs the state stays as it was, so the
  initial effect is not called.
\<close>

theorem createStateWith_TypeError_escapes:
  "heap (example_config (JNum float_five) None) 2
     = Some (Ordinary \<lparr>props = [''get'', ''set''], conversion = DefaultToString\<rparr>) \<and>
   createStateWith example_host (JRef 2) (Some 0) (example_config (JNum float_five) None)
     = Throw (InstanceError ''[object Object] is not an instance of the State class.'')
         (example_config (JNum float_five) None) \<and>
   heap (example_config (JNum float_five) None) 3
     = Some (Ordinary \<lparr>props = [''get'', ''set''], conversion = NoToString\<rparr>) \<and>
   \<not> instanceof_State (heap (example_config (JNum float_five) None)) (JRef 3) \<and>
   createStateWith example_host (JRef 3) (Some 0) (example_config (JNum float_five) None)
     = Throw (TypeError ''Cannot convert object to primitive value'')
         (example_config (JNum float_five) None) \<and>
   \<not> instanceof_State (heap (example_config (JNum float_five) None)) (JSym 0) \<and>
   createStateWith example_host (JSym 0) (Some 0) (example_config (JNum float_five) None)
     = Throw (TypeError ''Cannot convert a Symbol value to a string'')
         (example_config (JNum float_five) None)"
  by (simp add: example_defs createStateWith_def)

text \<open>
  C6. For an instance and a supplied effect \<open>f\<close>, \<^verbatim>\<open>createStateWith\<close> calls \<open>f\<close>
  exactly once, on the store as it is at the call and with the value \<^verbatim>\<open>get()\<close>
  gives there. When \<open>f\<close> returns, whatever it returns, \<^verbatim>\<open>createStateWith\<close> returns
  the instance; what \<open>f\<close> throws reaches the caller.
\<close>

theorem createStateWith_runs_effect:
  "heap s a = Some (Instance k c) \<Longrightarrow>
   createStateWith H (JRef a) (Some f) s =
     (case call H f (State_get (heap s) a) (heap s) of
        Return r h' \<Rightarrow>
          Return (JRef a) \<lparr>heap = h', calls = calls s @ [(f, State_get (heap s) a)]\<rparr>
      | Throw e h' \<Rightarrow> Throw e \<lparr>heap = h', calls = calls s @ [(f, State_get (heap s) a)]\<rparr>
      | Diverge \<Rightarrow> Diverge)"
proof -
  assume inst: "heap s a = Some (Instance k c)"
  then have "State_get (heap s) a = value c"
    by (simp add: State_get_def)
  with createStateWith_instance [OF inst, of H f] show ?thesis
    by (simp split: outcome.splits)
qed

text \<open>
  The fourth scenario: \<^verbatim>\<open>cell = State("a"); createStateWith(cell, v => { box.value = v })\<close>.
\<close>

theorem createStateWith_runs_effect_witness:
  "heap (example_config (JStr ''a'') None) 0
     = Some (Instance StateClass (State_new (JStr ''a'') None)) \<and>
   (case createStateWith example_host (JRef 0) (Some 0) (example_config (JStr ''a'') None) of
      Return u s' \<Rightarrow>
        u = JRef 0 \<and> calls s' = [(0, JStr ''a'')] \<and> State_get (heap s') 1 = JStr ''a'' \<and>
        State_get (heap s') 0 = JStr ''a''
    | _ \<Rightarrow> False)"
  using createStateWith_runs_effect [of "example_config (JStr ''a'') None" 0 StateClass
      "State_new (JStr ''a'') None" example_host 0]
  by (simp add: example_defs State_get_def)

text \<open>
  C7. For an instance, \<^verbatim>\<open>createStateWith\<close> without an effect returns the very
  reference it was given and leaves the whole state as it was. With an effect that
  returns, it returns that reference too, and the store it leaves is exactly the store
  the effect left: no object is added, and the cell's value and callback are touched by
  the effect alone. Whatever it returns is the reference it was given.
\<close>

theorem createStateWith_same_reference:
  "heap s a = Some (Instance k c) \<Longrightarrow>
   createStateWith H (JRef a) None s = Return (JRef a) s \<and>
   (\<forall>f r h'. call H f (value c) (heap s) = Return r h' \<longrightarrow>
      createStateWith H (JRef a) (Some f) s
        = Return (JRef a) \<lparr>heap = h', calls = calls s @ [(f, value c)]\<rparr>) \<and>
   (\<forall>eff u s'. createStateWith H (JRef a) eff s = Return u s' \<longrightarrow> u = JRef a)"
proof (intro conjI allI impI)
  assume inst: "heap s a = Some (Instance k c)"
  show "createStateWith H (JRef a) None s = Return (JRef a) s"
    using inst by (simp add: createStateWith_def)
  show "createStateWith H (JRef a) (Some f) s
        = Return (JRef a) \<lparr>heap = h', calls = calls s @ [(f, value c)]\<rparr>"
    if "call H f (value c) (heap s) = Return r h'" for f r h'
    using that by (simp add: createStateWith_instance [OF inst])
  show "u = JRef a" if "createStateWith H (JRef a) eff s = Return u s'" for eff u s'
    using that inst
    by (cases eff) (auto simp add: createStateWith_def split: outcome.splits)
qed

text \<open>
  \<^verbatim>\<open>cell = State(5)\<close>: without an effect nothing changes; with the effect
  \<^verbatim>\<open>v => { if (v !== 0) cell.set(0) }\<close> the cell holds 0 afterwards, set by the
  effect, and the reference returned is still the cell.
\<close>

theorem createStateWith_same_reference_witness:
  "heap (example_config (JNum float_five) None) 0
     = Some (Instance StateClass (State_new (JNum float_five) None)) \<and>
   createStateWith example_host (JRef 0) None (example_config (JNum float_five) None)
     = Return (JRef 0) (example_config (JNum float_five) None) \<and>
   (case createStateWith example_host (JRef 0) (Some 1) (example_config (JNum float_five) None) of
      Return u s' \<Rightarrow>
        u = JRef 0 \<and> State_get (heap s') 0 = JNum float_zero \<and> calls s' = [(1, JNum float_five)]
    | _ \<Rightarrow> False)"
  using createStateWith_same_reference [of "example_config (JNum float_five) None" 0 StateClass
      "State_new (JNum float_five) None" example_host]
  by (simp add: example_defs model_defs Let_def)

section \<open>Claims about the corners of the comparison\<close>

text \<open>
  C8. When the stored value is NaN, \<^verbatim>\<open>set\<close> with any number, NaN itself included,
  passes the type check and \<^verbatim>\<open>verifyValue\<close> reports a change, since NaN is
  \<^verbatim>\<open>!==\<close> to every number: the value is stored and the callback, if there is one, is
  called with it. As this holds in every state whose stored value is NaN, it holds on
  every such call: no \<^verbatim>\<open>set\<close> of a number is skipped there.
\<close>

theorem State_set_NaN_always_changes:
  "\<lbrakk>heap s this = Some (Instance k c); value c = JNum x; isNaN x\<rbrakk> \<Longrightarrow>
   State_verifyValue c (JNum y) = Inr True \<and>
   State_set H this (JNum y) s =
     (case onChange c of
        None \<Rightarrow> Return () (s\<lparr>heap := (heap s)(this \<mapsto> Instance k (c\<lparr>value := JNum y\<rparr>))\<rparr>)
      | Some f \<Rightarrow>
          (case call H f (JNum y) ((heap s)(this \<mapsto> Instance k (c\<lparr>value := JNum y\<rparr>))) of
             Return r h' \<Rightarrow> Return () \<lparr>heap = h', calls = calls s @ [(f, JNum y)]\<rparr>
           | Throw e h' \<Rightarrow> Throw e \<lparr>heap = h', calls = calls s @ [(f, JNum y)]\<rparr>
           | Diverge \<Rightarrow> Diverge))"
proof -
  assume inst: "heap s this = Some (Instance k c)" and cur: "value c = JNum x"
    and nan: "isNaN x"
  have changed: "State_verifyValue c (JNum y) = Inr True"
    using cur nan by (simp add: verifyValue_changed number_equal_def)
  with State_set_changed [OF inst changed, of H] show ?thesis
    by simp
qed

text \<open>\<^verbatim>\<open>cell = State(NaN, f); cell.set(NaN); cell.set(NaN)\<close> calls \<open>f\<close> twice.\<close>

theorem State_set_NaN_always_changes_witness:
  "heap (example_config (JNum float_NaN) (Some 0)) 0
     = Some (Instance StateClass (State_new (JNum float_NaN) (Some 0))) \<and>
   isNaN float_NaN \<and>
   State_verifyValue (State_new (JNum float_NaN) (Some 0)) (JNum float_NaN) = Inr True \<and>
   (case State_set example_host 0 (JNum float_NaN) (example_config (JNum float_NaN) (Some 0)) of
      Return u s' \<Rightarrow>
        calls s' = [(0, JNum float_NaN)] \<and> State_get (heap s') 0 = JNum float_NaN \<and>
        (case State_set example_host 0 (JNum float_NaN) s' of
           Return u' s'' \<Rightarrow> calls s'' = [(0, JNum float_NaN), (0, JNum float_NaN)]
         | _ \<Rightarrow> False)
    | _ \<Rightarrow> False)"
  using State_set_NaN_always_changes [of "example_config (JNum float_NaN) (Some 0)" 0 StateClass
      "State_new (JNum float_NaN) (Some 0)" float_NaN float_NaN example_host]
  by (simp add: example_defs model_defs Let_def)

text \<open>
  C9. The check of \<^verbatim>\<open>verifyValue\<close> compares \<^verbatim>\<open>typeof\<close> strings only. When the
  stored value is an object, \<^verbatim>\<open>set(null)\<close> and \<^verbatim>\<open>set\<close> with any other object,
  of whatever class, pass it and count as a change: the value is replaced and the
  callback, if there is one, is called with the new value.
\<close>

theorem State_set_object_tag_only:
  "\<lbrakk>heap s this = Some (Instance k c); value c = JRef b;
    v = JNull \<or> (\<exists>b'. v = JRef b' \<and> b' \<noteq> b)\<rbrakk> \<Longrightarrow>
   State_verifyValue c v = Inr True \<and>
   State_set H this v s =
     (case onChange c of
        None \<Rightarrow> Return () (s\<lparr>heap := (heap s)(this \<mapsto> Instance k (c\<lparr>value := v\<rparr>))\<rparr>)
      | Some f \<Rightarrow>
          (case call H f v ((heap s)(this \<mapsto> Instance k (c\<lparr>value := v\<rparr>))) of
             Return r h' \<Rightarrow> Return () \<lparr>heap = h', calls = calls s @ [(f, v)]\<rparr>
           | Throw e h' \<Rightarrow> Throw e \<lparr>heap = h', calls = calls s @ [(f, v)]\<rparr>
           | Diverge \<Rightarrow> Diverge))"
proof -
  assume inst: "heap s this = Some (Instance k c)" and cur: "value c = JRef b"
    and new: "v = JNull \<or> (\<exists>b'. v = JRef b' \<and> b' \<noteq> b)"
  have changed: "State_verifyValue c v = Inr True"
    using cur new by (auto simp add: verifyValue_changed)
  with State_set_changed [OF inst changed, of H] show ?thesis
    by simp
qed

text \<open>
  The cell at address 4 holds the plain object at 2. It accepts \<^verbatim>\<open>null\<close>, and it
  accepts the object at 0, which is of another class (an instance of \<^verbatim>\<open>State\<close>).
\<close>

theorem State_set_object_tag_only_witness:
  "heap (example_config (JNum float_five) None) 4
     = Some (Instance (ExtendedClass 0) (State_new (JRef 2) (Some 0))) \<and>
   heap (example_config (JNum float_five) None) 2
     = Some (Ordinary \<lparr>props = [''get'', ''set''], conversion = DefaultToString\<rparr>) \<and>
   heap (example_config (JNum float_five) None) 0
     = Some (Instance StateClass (State_new (JNum float_five) None)) \<and>
   (case State_set example_host 4 JNull (example_config (JNum float_five) None) of
      Return u s' \<Rightarrow> calls s' = [(0, JNull)] \<and> State_get (heap s') 4 = JNull
    | _ \<Rightarrow> False) \<and>
   (case State_set example_host 4 (JRef 0) (example_config (JNum float_five) None) of
      Return u s' \<Rightarrow> calls s' = [(0, JRef 0)] \<and> State_get (heap s') 4 = JRef 0
    | _ \<Rightarrow> False)"
  using State_set_object_tag_only [of "example_config (JNum float_five) None" 4 "ExtendedClass 0"
      "State_new (JRef 2) (Some 0)" 2 JNull example_host]
    State_set_object_tag_only [of "example_config (JNum float_five) None" 4 "ExtendedClass 0"
      "State_new (JRef 2) (Some 0)" 2 "JRef 0" example_host]
  by (simp add: example_defs model_defs Let_def)

text \<open>
  C10, as amended. When the callback throws during a \<^verbatim>\<open>set\<close> that changes the value,
  what it threw reaches the caller of \<^verbatim>\<open>set\<close>, and \<^verbatim>\<open>set\<close> undoes nothing: the
  value was stored before the callback ran, and the store after the failure is the store
  the callback left. So the stored value is then the new one, and no longer the one from
  before the call, whenever the callback has left the cell as the assignment made it.
\<close>

theorem State_set_callback_throws:
  "\<lbrakk>heap s this = Some (Instance k c); onChange c = Some f;
    typeof v = typeof (value c); \<not> strict_equal (value c) v;
    call H f v ((heap s)(this \<mapsto> Instance k (c\<lparr>value := v\<rparr>))) = Throw e h'\<rbrakk> \<Longrightarrow>
   State_set H this v s = Throw e \<lparr>heap = h', calls = calls s @ [(f, v)]\<rparr> \<and>
   State_get ((heap s)(this \<mapsto> Instance k (c\<lparr>value := v\<rparr>))) this = v \<and>
   (h' this = Some (Instance k (c\<lparr>value := v\<rparr>)) \<longrightarrow>
      State_get h' this = v \<and> \<not> strict_equal (State_get (heap s) this) (State_get h' this))"
proof -
  assume inst: "heap s this = Some (Instance k c)" and cb: "onChange c = Some f"
    and ty: "typeof v = typeof (value c)" and ne: "\<not> strict_equal (value c) v"
    and thr: "call H f v ((heap s)(this \<mapsto> Instance k (c\<lparr>value := v\<rparr>))) = Throw e h'"
  have "State_verifyValue c v = Inr True"
    using ty ne by (simp add: verifyValue_changed)
  from State_set_changed [OF inst this, of H] cb thr inst ne
  show ?thesis
    by (simp add: State_get_def)
qed

text \<open>\<^verbatim>\<open>cell = State(5, v => { throw 'boom' }); cell.set(6)\<close> throws and leaves 6.\<close>

theorem State_set_callback_throws_witness:
  "heap (example_config (JNum float_five) (Some 2)) 0
     = Some (Instance StateClass (State_new (JNum float_five) (Some 2))) \<and>
   typeof (JNum float_six) = typeof (JNum float_five) \<and>
   \<not> strict_equal (JNum float_five) (JNum float_six) \<and>
   (case State_set example_host 0 (JNum float_six) (example_config (JNum float_five) (Some 2)) of
      Throw e s' \<Rightarrow>
        e = UserThrown (JStr ''boom'') \<and> calls s' = [(2, JNum float_six)] \<and>
        State_get (heap s') 0 = JNum float_six
    | _ \<Rightarrow> False)"
  using State_set_callback_throws [of "example_config (JNum float_five) (Some 2)" 0 StateClass
      "State_new (JNum float_five) (Some 2)" 2 "JNum float_six" example_host
      "UserThrown (JStr ''boom'')"
      "(heap (example_config (JNum float_five) (Some 2)))
         (0 \<mapsto> Instance StateClass (State_new (JNum float_six) (Some 2)))"]
  by (simp add: example_defs model_defs Let_def)

text \<open>
  C10 as written fails where the callback assigns the cell before it throws:
  \<^verbatim>\<open>cell = State(5, v => { if (v !== 5) cell.set(5); throw 'boom' }); cell.set(6)\<close>
  throws, and the stored value is then 5, the value from before the call.
\<close>

theorem State_set_callback_undoes_counterexample:
  "heap (example_config (JNum float_five) (Some 3)) 0
     = Some (Instance StateClass (State_new (JNum float_five) (Some 3))) \<and>
   typeof (JNum float_six) = typeof (JNum float_five) \<and>
   \<not> strict_equal (JNum float_five) (JNum float_six) \<and>
   (case State_set example_host 0 (JNum float_six) (example_config (JNum float_five) (Some 3)) of
      Throw e s' \<Rightarrow>
        e = UserThrown (JStr ''boom'') \<and> calls s' = [(3, JNum float_six)] \<and>
        State_get (heap s') 0 = JNum float_five \<and> State_get (heap s') 0 \<noteq> JNum float_six
    | _ \<Rightarrow> False)"
  by (simp add: example_defs model_defs Let_def)

end
